theory Spec2Isabelle
  imports Complex_Main
begin

section \<open>Python values\<close>

text \<open>
  The program is a single Flask module, \<^verbatim>\<open>backend/app.py\<close>. It handles values decoded
  from JSON (the request body and the two providers' answers), which Python types
  dynamically, so the model has one type of Python values. A \<^verbatim>\<open>dict\<close> is an association
  list read with \<open>map_of\<close>. A \<^verbatim>\<open>str\<close> is the byte sequence of its UTF-8 encoding (on which
  the bytewise lexicographic order is the order of the code points); its characters are
  the code points, each a lead byte with its continuation bytes. An \<^verbatim>\<open>int\<close> is an
  unbounded integer. A \<^verbatim>\<open>float\<close> is the real number it stands for: the rounding of
  float arithmetic, the infinities and NaN are not modelled. No exception of the
  program depends on them (float arithmetic overflows to infinity silently, a float
  compares and formats without error), so which branch a request takes is exact, and
  only the digits of a computed mean or sum are idealised.
\<close>

datatype pyval =
    PNone
  | PBool bool
  | PInt int
  | PFloat real
  | PStr string
  | PList "pyval list"
  | PDict "(string \<times> pyval) list"

text \<open>
  An exception is a value. \<open>RequestException\<close>, \<open>HTTPError\<close> and \<open>JSONDecodeError\<close> are
  the ones the \<^verbatim>\<open>requests\<close> library raises (a transport failure with its description,
  \<^verbatim>\<open>raise_for_status\<close> with the status code, \<^verbatim>\<open>resp.json()\<close> on a malformed body); the
  others are raised by the interpreter.
\<close>

datatype exn =
    TypeError
  | AttributeError
  | KeyError string
  | NameError string
  | ValueError
  | ZeroDivisionError
  | OverflowError
  | RequestException string
  | HTTPError nat
  | JSONDecodeError string

text \<open>\<^verbatim>\<open>bool(v)\<close>: what \<^verbatim>\<open>if v\<close>, \<^verbatim>\<open>not v\<close> and \<^verbatim>\<open>v and w\<close> test.\<close>

fun truthy :: "pyval \<Rightarrow> bool" where
  "truthy PNone = False"
| "truthy (PBool b) = b"
| "truthy (PInt i) = (i \<noteq> 0)"
| "truthy (PFloat r) = (r \<noteq> 0)"
| "truthy (PStr s) = (s \<noteq> [])"
| "truthy (PList xs) = (xs \<noteq> [])"
| "truthy (PDict kvs) = (kvs \<noteq> [])"

text \<open>The numeric value of a number, by which numbers of any two types compare;
  \<^verbatim>\<open>bool\<close> is a subclass of \<^verbatim>\<open>int\<close>.\<close>

fun num_of :: "pyval \<Rightarrow> real option" where
  "num_of (PInt i) = Some (of_int i)"
| "num_of (PFloat r) = Some r"
| "num_of (PBool b) = Some (if b then 1 else 0)"
| "num_of _ = None"

text \<open>
  The conversion of an \<^verbatim>\<open>int\<close> to a \<^verbatim>\<open>float\<close>, which mixed arithmetic and the format
  code \<^verbatim>\<open>f\<close> apply: \<^verbatim>\<open>OverflowError\<close> when the integer rounds to \<open>2 ^ 1024\<close> or beyond,
  that is from the midpoint between the largest double, \<open>2 ^ 1024 - 2 ^ 971\<close>, and
  \<open>2 ^ 1024\<close> on.
\<close>

definition float_bound :: real where
  "float_bound = 2 ^ 1024 - 2 ^ 970"

definition int_to_float :: "int \<Rightarrow> exn + real" where
  "int_to_float i =
     (if \<bar>real_of_int i\<bar> < float_bound then Inr (real_of_int i) else Inl OverflowError)"

text \<open>\<^verbatim>\<open>d.get(k, default)\<close>: only a dict has the method.\<close>

fun py_get :: "pyval \<Rightarrow> string \<Rightarrow> pyval \<Rightarrow> exn + pyval" where
  "py_get (PDict kvs) k d = Inr (case map_of kvs k of None \<Rightarrow> d | Some v \<Rightarrow> v)"
| "py_get _ k d = Inl AttributeError"

text \<open>\<^verbatim>\<open>v[k]\<close> with a string key: \<^verbatim>\<open>KeyError\<close> on a dict without the key, \<^verbatim>\<open>TypeError\<close>
  on every other value (a list or a string wants an integer index, the rest is not
  subscriptable).\<close>

fun py_getitem :: "pyval \<Rightarrow> string \<Rightarrow> exn + pyval" where
  "py_getitem (PDict kvs) k = (case map_of kvs k of None \<Rightarrow> Inl (KeyError k) | Some v \<Rightarrow> Inr v)"
| "py_getitem _ k = Inl TypeError"

text \<open>
  The characters of a string: a byte that is not a continuation byte (\<open>0x80\<close> to
  \<open>0xBF\<close>) starts a code point, and the continuation bytes after it belong to it.
\<close>

definition continuation_byte :: "char \<Rightarrow> bool" where
  "continuation_byte c \<longleftrightarrow> 128 \<le> (of_char c :: nat) \<and> (of_char c :: nat) < 192"

function utf8_chars :: "string \<Rightarrow> string list" where
  "utf8_chars [] = []"
| "utf8_chars (c # s) =
     (c # takeWhile continuation_byte s) # utf8_chars (dropWhile continuation_byte s)"
  by pat_completeness auto
termination
  by (relation "measure length") (auto simp: length_dropWhile_le le_imp_less_Suc)

text \<open>\<^verbatim>\<open>iter(v)\<close>, run to the end: a dict yields its keys, a string its characters.\<close>

fun py_iter :: "pyval \<Rightarrow> exn + pyval list" where
  "py_iter (PList xs) = Inr xs"
| "py_iter (PDict kvs) = Inr (map (\<lambda>kv. PStr (fst kv)) kvs)"
| "py_iter (PStr s) = Inr (map PStr (utf8_chars s))"
| "py_iter _ = Inl TypeError"

text \<open>\<^verbatim>\<open>len(v)\<close>.\<close>

fun py_len :: "pyval \<Rightarrow> exn + nat" where
  "py_len (PList xs) = Inr (length xs)"
| "py_len (PDict kvs) = Inr (length kvs)"
| "py_len (PStr s) = Inr (length (utf8_chars s))"
| "py_len _ = Inl TypeError"

text \<open>
  The running total of \<^verbatim>\<open>sum\<close> is an \<^verbatim>\<open>int\<close> or a \<^verbatim>\<open>float\<close>. \<^verbatim>\<open>a + b\<close> with such a
  total on the left: integers add exactly, a \<^verbatim>\<open>bool\<close> counts as an integer, and when
  one side is a float the integer side is converted first, which raises on an integer
  too large for a float. Anything else on the right is a \<^verbatim>\<open>TypeError\<close>.
\<close>

datatype number = NInt int | NFloat real

fun number_val :: "number \<Rightarrow> pyval" where
  "number_val (NInt i) = PInt i"
| "number_val (NFloat x) = PFloat x"

fun py_add :: "number \<Rightarrow> pyval \<Rightarrow> exn + number" where
  "py_add (NInt i) (PInt j) = Inr (NInt (i + j))"
| "py_add (NInt i) (PBool b) = Inr (NInt (i + (if b then 1 else 0)))"
| "py_add (NInt i) (PFloat y) =
     (case int_to_float i of Inl e \<Rightarrow> Inl e | Inr x \<Rightarrow> Inr (NFloat (x + y)))"
| "py_add (NFloat x) (PInt j) =
     (case int_to_float j of Inl e \<Rightarrow> Inl e | Inr y \<Rightarrow> Inr (NFloat (x + y)))"
| "py_add (NFloat x) (PBool b) = Inr (NFloat (x + (if b then 1 else 0)))"
| "py_add (NFloat x) (PFloat y) = Inr (NFloat (x + y))"
| "py_add a v = Inl TypeError"

fun sum_from :: "number \<Rightarrow> pyval list \<Rightarrow> exn + number" where
  "sum_from acc [] = Inr acc"
| "sum_from acc (x # xs) =
     (case py_add acc x of Inl e \<Rightarrow> Inl e | Inr acc' \<Rightarrow> sum_from acc' xs)"

text \<open>\<^verbatim>\<open>sum(v)\<close>: starts from the integer 0 and adds the items in order.\<close>

definition py_sum :: "pyval \<Rightarrow> exn + number" where
  "py_sum v = (case py_iter v of Inl e \<Rightarrow> Inl e | Inr xs \<Rightarrow> sum_from (NInt 0) xs)"

text \<open>
  \<^verbatim>\<open>a / n\<close> for a total \<open>a\<close> and a length \<open>n\<close>, always a float. The quotient of two
  integers is rounded once; it raises \<^verbatim>\<open>OverflowError\<close> when it is too large for a
  float. A float total is divided as a float.
\<close>

fun py_truediv :: "number \<Rightarrow> nat \<Rightarrow> exn + real" where
  "py_truediv (NInt i) n =
     (if n = 0 then Inl ZeroDivisionError
      else if \<bar>real_of_int i / real n\<bar> < float_bound then Inr (real_of_int i / real n)
      else Inl OverflowError)"
| "py_truediv (NFloat x) n =
     (if n = 0 then Inl ZeroDivisionError else Inr (x / real n))"

text \<open>
  \<^verbatim>\<open>a == b\<close> and \<^verbatim>\<open>a > b\<close>. Numbers compare by value, strings and lists
  lexicographically (a list compares at the first index where the items are not
  equal, else by length), dicts are equal when they have the same keys with equal
  values; every other ordering comparison raises \<^verbatim>\<open>TypeError\<close>.
\<close>

fun str_gt :: "string \<Rightarrow> string \<Rightarrow> bool" where
  "str_gt [] t = False"
| "str_gt (c # s) [] = True"
| "str_gt (c # s) (d # t) =
     (if c = d then str_gt s t else (of_char c :: nat) > of_char d)"

fun py_eq :: "pyval \<Rightarrow> pyval \<Rightarrow> bool"
  and py_eq_list :: "pyval list \<Rightarrow> pyval list \<Rightarrow> bool"
  and py_eq_items :: "(string \<times> pyval) list \<Rightarrow> (string \<times> pyval) list \<Rightarrow> bool" where
  "py_eq PNone b = (b = PNone)"
| "py_eq (PBool x) b = (num_of b = Some (if x then 1 else 0))"
| "py_eq (PInt i) b = (num_of b = Some (of_int i))"
| "py_eq (PFloat x) b = (num_of b = Some x)"
| "py_eq (PStr s) b = (b = PStr s)"
| "py_eq (PList xs) b = (case b of PList ys \<Rightarrow> py_eq_list xs ys | _ \<Rightarrow> False)"
| "py_eq (PDict kvs) b =
     (case b of PDict kvs' \<Rightarrow> length kvs = length kvs' \<and> py_eq_items kvs kvs' | _ \<Rightarrow> False)"
| "py_eq_list [] ys = (ys = [])"
| "py_eq_list (x # xs) ys =
     (case ys of [] \<Rightarrow> False | y # ys' \<Rightarrow> py_eq x y \<and> py_eq_list xs ys')"
| "py_eq_items [] kvs' = True"
| "py_eq_items (kv # kvs) kvs' =
     ((case map_of kvs' (fst kv) of None \<Rightarrow> False | Some v' \<Rightarrow> py_eq (snd kv) v')
      \<and> py_eq_items kvs kvs')"

fun py_gt :: "pyval \<Rightarrow> pyval \<Rightarrow> exn + bool"
  and py_gt_list :: "pyval list \<Rightarrow> pyval list \<Rightarrow> exn + bool" where
  "py_gt (PBool x) b =
     (case num_of b of None \<Rightarrow> Inl TypeError | Some y \<Rightarrow> Inr ((if x then 1 else 0) > y))"
| "py_gt (PInt i) b =
     (case num_of b of None \<Rightarrow> Inl TypeError | Some y \<Rightarrow> Inr (of_int i > y))"
| "py_gt (PFloat x) b = (case num_of b of None \<Rightarrow> Inl TypeError | Some y \<Rightarrow> Inr (x > y))"
| "py_gt (PStr s) b = (case b of PStr t \<Rightarrow> Inr (str_gt s t) | _ \<Rightarrow> Inl TypeError)"
| "py_gt (PList xs) b = (case b of PList ys \<Rightarrow> py_gt_list xs ys | _ \<Rightarrow> Inl TypeError)"
| "py_gt PNone b = Inl TypeError"
| "py_gt (PDict kvs) b = Inl TypeError"
| "py_gt_list [] ys = Inr False"
| "py_gt_list (x # xs) ys =
     (case ys of [] \<Rightarrow> Inr True
      | y # ys' \<Rightarrow> if py_eq x y then py_gt_list xs ys' else py_gt x y)"

text \<open>\<^verbatim>\<open>a < b\<close> on these types is the reflected \<^verbatim>\<open>b > a\<close>.\<close>

definition py_lt :: "pyval \<Rightarrow> pyval \<Rightarrow> exn + bool" where
  "py_lt a b = py_gt b a"

text \<open>\<^verbatim>\<open>max(v)\<close>: the first item, replaced by each later item that is greater than the
  maximum so far; \<^verbatim>\<open>ValueError\<close> when there is no item.\<close>

fun max_from :: "pyval \<Rightarrow> pyval list \<Rightarrow> exn + pyval" where
  "max_from m [] = Inr m"
| "max_from m (x # xs) =
     (case py_gt x m of Inl e \<Rightarrow> Inl e | Inr b \<Rightarrow> max_from (if b then x else m) xs)"

definition py_max :: "pyval \<Rightarrow> exn + pyval" where
  "py_max v =
     (case py_iter v of Inl e \<Rightarrow> Inl e
      | Inr [] \<Rightarrow> Inl ValueError
      | Inr (x # xs) \<Rightarrow> max_from x xs)"


section \<open>The rule table and the classifier\<close>

text \<open>
  Each rule of \<^verbatim>\<open>CONDITION_RULES\<close> holds a lambda. A lambda is kept as the source writes
  it: its parameter list (positional parameters, \<^verbatim>\<open>*name\<close>, the keyword-only parameters
  that follow it, \<^verbatim>\<open>**name\<close>) and its body, a comparison of one parameter with a
  constant.
\<close>

datatype cmp_op = Gt | Lt

datatype py_expr = Compare string cmp_op int

datatype py_lambda =
  Lambda (pos_params: "string list") (var_args: "string option")
    (kwonly_params: "string list") (var_kwargs: "string option") (body: py_expr)

text \<open>
  Binding the arguments of a call \<^verbatim>\<open>f(a1, ..., an)\<close> that passes positional arguments
  only, as \<^verbatim>\<open>rule(temp, wind, precip, humidity)\<close> does. The positional parameters take
  the first arguments; the rest goes to \<^verbatim>\<open>*name\<close> as a tuple, and is an error without
  one. A parameter written after \<^verbatim>\<open>*name\<close> is keyword-only: it has no default here and
  the call passes no keyword, so each one is a missing argument. All three errors are
  \<^verbatim>\<open>TypeError\<close>.
\<close>

definition bind_args :: "py_lambda \<Rightarrow> pyval list \<Rightarrow> exn + (string \<times> pyval) list" where
  "bind_args f args =
     (let n = length (pos_params f) in
      if length args < n then Inl TypeError
      else if var_args f = None \<and> n < length args then Inl TypeError
      else if kwonly_params f \<noteq> [] then Inl TypeError
      else Inr (zip (pos_params f) (take n args)
                @ (case var_args f of None \<Rightarrow> [] | Some a \<Rightarrow> [(a, PList (drop n args))])
                @ (case var_kwargs f of None \<Rightarrow> [] | Some k \<Rightarrow> [(k, PDict [])])))"

fun eval_expr :: "(string \<times> pyval) list \<Rightarrow> py_expr \<Rightarrow> exn + pyval" where
  "eval_expr env (Compare x op c) =
     (case map_of env x of
        None \<Rightarrow> Inl (NameError x)
      | Some v \<Rightarrow>
          (case (case op of Gt \<Rightarrow> py_gt v (PInt c) | Lt \<Rightarrow> py_lt v (PInt c)) of
             Inl e \<Rightarrow> Inl e
           | Inr b \<Rightarrow> Inr (PBool b)))"

definition call_lambda :: "py_lambda \<Rightarrow> pyval list \<Rightarrow> exn + pyval" where
  "call_lambda f args =
     (case bind_args f args of Inl e \<Rightarrow> Inl e | Inr env \<Rightarrow> eval_expr env (body f))"

text \<open>A row of the table is a 6-tuple; a match is the dict the classifier builds from
  it, without the predicate.\<close>

record rule =
  rule_label :: string
  rule_pred :: py_lambda
  rule_icon :: string
  rule_risk :: string
  rule_advice :: string
  rule_color :: string

record condition =
  label :: string
  icon :: string
  risk :: string
  advice :: string
  color :: string

text \<open>The non-ASCII characters of the table, as their UTF-8 bytes: U+26A0 U+FE0F (warning
  sign), U+2600 U+FE0F (sun), U+2744 U+FE0F (snowflake), U+1F4A8 (dash), U+1F327 U+FE0F
  (cloud with rain), U+1F613 (face with cold sweat).\<close>

definition warning_sign :: string where
  "warning_sign = [CHR 0xE2, CHR 0x9A, CHR 0xA0, CHR 0xEF, CHR 0xB8, CHR 0x8F]"

definition sun_icon :: string where
  "sun_icon = [CHR 0xE2, CHR 0x98, CHR 0x80, CHR 0xEF, CHR 0xB8, CHR 0x8F]"

definition snowflake_icon :: string where
  "snowflake_icon = [CHR 0xE2, CHR 0x9D, CHR 0x84, CHR 0xEF, CHR 0xB8, CHR 0x8F]"

definition dash_icon :: string where
  "dash_icon = [CHR 0xF0, CHR 0x9F, CHR 0x92, CHR 0xA8]"

definition rain_icon :: string where
  "rain_icon = [CHR 0xF0, CHR 0x9F, CHR 0x8C, CHR 0xA7, CHR 0xEF, CHR 0xB8, CHR 0x8F]"

definition sweat_icon :: string where
  "sweat_icon = [CHR 0xF0, CHR 0x9F, CHR 0x98, CHR 0x93]"

text \<open>
  The five rows, in the order of the source:
  \<^verbatim>\<open>lambda t, *_: t > 35\<close>, \<^verbatim>\<open>lambda t, *_: t < 5\<close>, \<^verbatim>\<open>lambda _, w, *__: w > 40\<close>,
  \<^verbatim>\<open>lambda *_, p, **__: p > 10\<close>, \<^verbatim>\<open>lambda *_, h: h > 80\<close>.
\<close>

definition rule_very_hot :: rule where
  "rule_very_hot = \<lparr>rule_label = ''Very Hot'',
     rule_pred = Lambda [''t''] (Some ''_'') [] None (Compare ''t'' Gt 35),
     rule_icon = sun_icon, rule_risk = warning_sign @ '' Very Hot'',
     rule_advice = ''Pack extra water and sunscreen.'', rule_color = ''red''\<rparr>"

definition rule_very_cold :: rule where
  "rule_very_cold = \<lparr>rule_label = ''Very Cold'',
     rule_pred = Lambda [''t''] (Some ''_'') [] None (Compare ''t'' Lt 5),
     rule_icon = snowflake_icon, rule_risk = warning_sign @ '' Very Cold'',
     rule_advice = ''Dress warmly and watch for ice.'', rule_color = ''blue''\<rparr>"

definition rule_very_windy :: rule where
  "rule_very_windy = \<lparr>rule_label = ''Very Windy'',
     rule_pred = Lambda [''_'', ''w''] (Some ''__'') [] None (Compare ''w'' Gt 40),
     rule_icon = dash_icon, rule_risk = warning_sign @ '' Very Windy'',
     rule_advice = ''Secure loose items and avoid open areas.'', rule_color = ''gray''\<rparr>"

definition rule_very_wet :: rule where
  "rule_very_wet = \<lparr>rule_label = ''Very Wet'',
     rule_pred = Lambda [] (Some ''_'') [''p''] (Some ''__'') (Compare ''p'' Gt 10),
     rule_icon = rain_icon, rule_risk = warning_sign @ '' Very Wet'',
     rule_advice = ''Bring rain gear and waterproof shoes.'', rule_color = ''darkblue''\<rparr>"

definition rule_very_uncomfortable :: rule where
  "rule_very_uncomfortable = \<lparr>rule_label = ''Very Uncomfortable'',
     rule_pred = Lambda [] (Some ''_'') [''h''] None (Compare ''h'' Gt 80),
     rule_icon = sweat_icon, rule_risk = warning_sign @ '' Very Uncomfortable'',
     rule_advice = ''Stay hydrated and take breaks.'', rule_color = ''orange''\<rparr>"

definition CONDITION_RULES :: "rule list" where
  "CONDITION_RULES =
     [rule_very_hot, rule_very_cold, rule_very_windy, rule_very_wet, rule_very_uncomfortable]"

definition match_of :: "rule \<Rightarrow> condition" where
  "match_of r = \<lparr>label = rule_label r, icon = rule_icon r, risk = rule_risk r,
                 advice = rule_advice r, color = rule_color r\<rparr>"

text \<open>
  The \<^verbatim>\<open>for\<close> loop of \<^verbatim>\<open>classify_conditions\<close> over the rows still to visit, with
  the list \<^verbatim>\<open>results\<close> built so far. An exception raised by a predicate leaves the
  loop and the function.
\<close>

fun classify_loop :: "rule list \<Rightarrow> pyval list \<Rightarrow> condition list \<Rightarrow> exn + condition list" where
  "classify_loop [] args results = Inr results"
| "classify_loop (r # rs) args results =
     (case call_lambda (rule_pred r) args of
        Inl e \<Rightarrow> Inl e
      | Inr v \<Rightarrow> classify_loop rs args (if truthy v then results @ [match_of r] else results))"

definition classify_conditions ::
  "pyval \<Rightarrow> pyval \<Rightarrow> pyval \<Rightarrow> pyval \<Rightarrow> exn + condition list" where
  "classify_conditions temp wind precip humidity =
     classify_loop CONDITION_RULES [temp, wind, precip, humidity] []"

text \<open>A row fires on the arguments: its predicate returns a truthy value.\<close>

definition fires :: "pyval list \<Rightarrow> rule \<Rightarrow> bool" where
  "fires args r = (case call_lambda (rule_pred r) args of Inl e \<Rightarrow> False | Inr v \<Rightarrow> truthy v)"

section \<open>The summary\<close>

text \<open>\<^verbatim>\<open>any(...)\<close> over a generator: true at the first true item. \<^verbatim>\<open>x in [...]\<close>: true
  at the first equal item.\<close>

fun py_in :: "string \<Rightarrow> string list \<Rightarrow> bool" where
  "py_in x [] = False"
| "py_in x (y # ys) = (if x = y then True else py_in x ys)"

fun py_any :: "bool list \<Rightarrow> bool" where
  "py_any [] = False"
| "py_any (b # bs) = (if b then True else py_any bs)"

definition get_summary :: "condition list \<Rightarrow> string" where
  "get_summary conditions =
     (if conditions = [] then ''Great day for outdoor activities!''
      else if py_any (map (\<lambda>c. py_in (label c) [''Very Hot'', ''Very Wet'', ''Very Uncomfortable''])
                       conditions)
        then ''This day looks uncomfortable for hiking. Best to plan indoors.''
      else if py_any (map (\<lambda>c. label c = ''Very Windy'') conditions)
        then ''Windy conditions. Caution advised for outdoor events.''
      else if py_any (map (\<lambda>c. label c = ''Very Cold'') conditions)
        then ''Dress warmly for outdoor activities.''
      else ''Check conditions before heading out.'')"


section \<open>The environment of a request\<close>

text \<open>
  What the handler reads from outside itself. A calendar date is the triple that
  \<^verbatim>\<open>datetime.date\<close> holds, compared as Python compares it: year, then month, then day.
  An HTTP response carries what the handler reads of it: \<^verbatim>\<open>resp.ok\<close> (false exactly
  when \<^verbatim>\<open>raise_for_status\<close> raises), the status code, and what \<^verbatim>\<open>resp.json()\<close> gives,
  the decoded value or the decoding error.
\<close>

record date =
  year :: nat
  month :: nat
  day :: nat

definition date_lt :: "date \<Rightarrow> date \<Rightarrow> bool" where
  "date_lt a b =
     (year a < year b \<or> (year a = year b \<and>
        (month a < month b \<or> (month a = month b \<and> day a < day b))))"

record response =
  ok :: bool
  status_code :: nat
  json_result :: "exn + pyval"

type_synonym call = "string \<times> (string \<times> pyval) list"

text \<open>
  The world of one request: the current UTC date, the answer to each outbound GET (an
  exception of \<^verbatim>\<open>requests\<close> or a response), and the library functions the handler
  calls: \<^verbatim>\<open>datetime.strptime(s, "%Y-%m-%d")\<close> on a string (\<open>None\<close> is its
  \<^verbatim>\<open>ValueError\<close>), \<^verbatim>\<open>str(e)\<close> of an exception, \<^verbatim>\<open>str(v)\<close> of a value inside an f-string,
  and \<^verbatim>\<open>format(x, ".2f")\<close> of a number.
\<close>

record world =
  utcnow_date :: date
  http_get :: "string \<Rightarrow> (string \<times> pyval) list \<Rightarrow> exn + response"
  strptime_ymd :: "string \<Rightarrow> date option"
  exc_str :: "exn \<Rightarrow> string"
  val_str :: "pyval \<Rightarrow> string"
  format_2f :: "real \<Rightarrow> string"

text \<open>\<^verbatim>\<open>datetime.strptime(v, "%Y-%m-%d").date()\<close>: a value that is not a string is a
  \<^verbatim>\<open>TypeError\<close>.\<close>

definition py_strptime :: "world \<Rightarrow> pyval \<Rightarrow> exn + date" where
  "py_strptime w v =
     (case v of
        PStr s \<Rightarrow> (case strptime_ymd w s of None \<Rightarrow> Inl ValueError | Some d \<Rightarrow> Inr d)
      | _ \<Rightarrow> Inl TypeError)"

text \<open>\<^verbatim>\<open>f"{v:.2f}"\<close>: numbers only. An integer is converted to a float first, which
  raises when it is too large; a string rejects the format code, the other types
  reject any format string.\<close>

definition py_format_2f :: "world \<Rightarrow> pyval \<Rightarrow> exn + string" where
  "py_format_2f w v =
     (case v of
        PFloat r \<Rightarrow> Inr (format_2f w r)
      | PInt i \<Rightarrow> (case int_to_float i of Inl e \<Rightarrow> Inl e | Inr x \<Rightarrow> Inr (format_2f w x))
      | PBool b \<Rightarrow> Inr (format_2f w (if b then 1 else 0))
      | PStr s \<Rightarrow> Inl ValueError
      | _ \<Rightarrow> Inl TypeError)"

definition raise_for_status :: "response \<Rightarrow> exn + unit" where
  "raise_for_status resp = (if ok resp then Inr () else Inl (HTTPError (status_code resp)))"

section \<open>The location name\<close>

definition geocode_url :: "world \<Rightarrow> pyval \<Rightarrow> pyval \<Rightarrow> string" where
  "geocode_url w lat lon =
     ''https://nominatim.openstreetmap.org/reverse?lat='' @ val_str w lat
       @ ''&lon='' @ val_str w lon @ ''&format=json''"

text \<open>The fallback \<^verbatim>\<open>f"{lat:.2f}, {lon:.2f}"\<close>.\<close>

definition fallback_name :: "world \<Rightarrow> pyval \<Rightarrow> pyval \<Rightarrow> exn + pyval" where
  "fallback_name w lat lon =
     (case py_format_2f w lat of
        Inl e \<Rightarrow> Inl e
      | Inr a \<Rightarrow>
          (case py_format_2f w lon of
             Inl e \<Rightarrow> Inl e
           | Inr b \<Rightarrow> Inr (PStr (a @ '', '' @ b))))"

text \<open>
  The body of the \<^verbatim>\<open>try\<close> of \<^verbatim>\<open>get_location_name\<close>: \<open>Inr (Some v)\<close> when it returns
  \<open>v\<close>, \<open>Inr None\<close> when it ends without returning (the response is not \<^verbatim>\<open>ok\<close>),
  \<open>Inl e\<close> when it raises. In \<^verbatim>\<open>data.get("display_name", f"...")\<close> the method is
  looked up first, then the default is formatted, then the call is made.
\<close>

definition location_try :: "world \<Rightarrow> pyval \<Rightarrow> pyval \<Rightarrow> exn + pyval option" where
  "location_try w lat lon =
     (case http_get w (geocode_url w lat lon) [] of
        Inl e \<Rightarrow> Inl e
      | Inr resp \<Rightarrow>
          if ok resp then
            (case json_result resp of
               Inl e \<Rightarrow> Inl e
             | Inr data \<Rightarrow>
                 (case py_get data ''display_name'' PNone of
                    Inl e \<Rightarrow> Inl e
                  | Inr _ \<Rightarrow>
                      (case fallback_name w lat lon of
                         Inl e \<Rightarrow> Inl e
                       | Inr d \<Rightarrow>
                           (case py_get data ''display_name'' d of
                              Inl e \<Rightarrow> Inl e
                            | Inr v \<Rightarrow> Inr (Some v)))))
          else Inr None)"

text \<open>\<^verbatim>\<open>except Exception: pass\<close> absorbs whatever the \<^verbatim>\<open>try\<close> raises; the last line, outside
  the \<^verbatim>\<open>try\<close>, formats the fallback.\<close>

definition get_location_name :: "world \<Rightarrow> pyval \<Rightarrow> pyval \<Rightarrow> exn + pyval" where
  "get_location_name w lat lon =
     (case location_try w lat lon of
        Inr (Some v) \<Rightarrow> Inr v
      | _ \<Rightarrow> fallback_name w lat lon)"

section \<open>The endpoint\<close>

definition archive_url :: string where
  "archive_url = ''https://archive-api.open-meteo.com/v1/archive''"

definition forecast_url :: string where
  "forecast_url = ''https://api.open-meteo.com/v1/forecast''"

definition base_url :: "bool \<Rightarrow> string" where
  "base_url is_past = (if is_past then archive_url else forecast_url)"

definition weather_params :: "pyval \<Rightarrow> pyval \<Rightarrow> pyval \<Rightarrow> (string \<times> pyval) list" where
  "weather_params lat lon date =
     [(''latitude'', lat), (''longitude'', lon), (''start_date'', date), (''end_date'', date),
      (''hourly'', PStr ''temperature_2m,windspeed_10m,precipitation,relativehumidity_2m''),
      (''timezone'', PStr ''auto'')]"

text \<open>\<^verbatim>\<open>sum(h[k]) / len(h[k]) if h.get(k) else 0\<close>: the condition first, then the sum,
  then the length.\<close>

definition mean_or_zero :: "pyval \<Rightarrow> string \<Rightarrow> exn + pyval" where
  "mean_or_zero h k =
     (case py_get h k PNone of
        Inl e \<Rightarrow> Inl e
      | Inr c \<Rightarrow>
          if truthy c then
            (case py_getitem h k of
               Inl e \<Rightarrow> Inl e
             | Inr xs \<Rightarrow>
                 (case py_sum xs of
                    Inl e \<Rightarrow> Inl e
                  | Inr s \<Rightarrow>
                      (case py_getitem h k of
                         Inl e \<Rightarrow> Inl e
                       | Inr ys \<Rightarrow>
                           (case py_len ys of
                              Inl e \<Rightarrow> Inl e
                            | Inr n \<Rightarrow>
                                (case py_truediv s n of
                                   Inl e \<Rightarrow> Inl e
                                 | Inr m \<Rightarrow> Inr (PFloat m))))))
          else Inr (PInt 0))"

text \<open>\<^verbatim>\<open>max(h[k]) if h.get(k) else 0\<close>.\<close>

definition max_or_zero :: "pyval \<Rightarrow> string \<Rightarrow> exn + pyval" where
  "max_or_zero h k =
     (case py_get h k PNone of
        Inl e \<Rightarrow> Inl e
      | Inr c \<Rightarrow>
          if truthy c then
            (case py_getitem h k of Inl e \<Rightarrow> Inl e | Inr xs \<Rightarrow> py_max xs)
          else Inr (PInt 0))"

text \<open>\<^verbatim>\<open>sum(h.get(k, [0]))\<close>.\<close>

definition sum_or_zero :: "pyval \<Rightarrow> string \<Rightarrow> exn + pyval" where
  "sum_or_zero h k =
     (case py_get h k (PList [PInt 0]) of
        Inl e \<Rightarrow> Inl e
      | Inr xs \<Rightarrow> (case py_sum xs of Inl e \<Rightarrow> Inl e | Inr s \<Rightarrow> Inr (number_val s)))"

text \<open>The four assignments after \<^verbatim>\<open>h = weather["hourly"]\<close>, in order.\<close>

definition daily_metrics :: "pyval \<Rightarrow> exn + pyval \<times> pyval \<times> pyval \<times> pyval" where
  "daily_metrics h =
     (case mean_or_zero h ''temperature_2m'' of
        Inl e \<Rightarrow> Inl e
      | Inr temp \<Rightarrow>
          (case max_or_zero h ''windspeed_10m'' of
             Inl e \<Rightarrow> Inl e
           | Inr wind \<Rightarrow>
               (case sum_or_zero h ''precipitation'' of
                  Inl e \<Rightarrow> Inl e
                | Inr precip \<Rightarrow>
                    (case mean_or_zero h ''relativehumidity_2m'' of
                       Inl e \<Rightarrow> Inl e
                     | Inr humidity \<Rightarrow> Inr (temp, wind, precip, humidity)))))"

text \<open>The body of the second \<^verbatim>\<open>try\<close> of \<^verbatim>\<open>weather\<close>: the GET, \<^verbatim>\<open>raise_for_status\<close>,
  \<^verbatim>\<open>resp.json()\<close>, \<^verbatim>\<open>weather["hourly"]\<close> and the four metrics.\<close>

definition fetch_metrics ::
  "world \<Rightarrow> string \<Rightarrow> (string \<times> pyval) list \<Rightarrow> exn + pyval \<times> pyval \<times> pyval \<times> pyval" where
  "fetch_metrics w url params =
     (case http_get w url params of
        Inl e \<Rightarrow> Inl e
      | Inr resp \<Rightarrow>
          (case raise_for_status resp of
             Inl e \<Rightarrow> Inl e
           | Inr _ \<Rightarrow>
               (case json_result resp of
                  Inl e \<Rightarrow> Inl e
                | Inr weather_json \<Rightarrow>
                    (case py_getitem weather_json ''hourly'' of
                       Inl e \<Rightarrow> Inl e
                     | Inr h \<Rightarrow> daily_metrics h))))"

definition error_body :: "string \<Rightarrow> pyval" where
  "error_body msg = PDict [(''error'', PStr msg)]"

definition condition_json :: "condition \<Rightarrow> pyval" where
  "condition_json c =
     PDict [(''label'', PStr (label c)), (''icon'', PStr (icon c)), (''risk'', PStr (risk c)),
            (''advice'', PStr (advice c)), (''color'', PStr (color c))]"

text \<open>
  The view function, from the decoded request body \<open>data\<close>. It returns the response (a
  status with a JSON body), or the exception that leaves the function, which Flask
  answers with status 500; and the outbound GETs it issued, in order.
\<close>

definition weather :: "world \<Rightarrow> pyval \<Rightarrow> (exn + nat \<times> pyval) \<times> call list" where
  "weather w data =
     (case py_get data ''lat'' PNone of
        Inl e \<Rightarrow> (Inl e, [])
      | Inr lat \<Rightarrow>
     (case py_get data ''lon'' PNone of
        Inl e \<Rightarrow> (Inl e, [])
      | Inr lon \<Rightarrow>
     (case py_get data ''date'' PNone of
        Inl e \<Rightarrow> (Inl e, [])
      | Inr date \<Rightarrow>
     if \<not> (truthy lat \<and> truthy lon \<and> truthy date)
     then (Inr (400, error_body ''Missing lat, lon, or date''), [])
     else
     (case py_strptime w date of
        Inl e \<Rightarrow> (Inr (400, error_body ''Invalid date format, use YYYY-MM-DD''), [])
      | Inr dt \<Rightarrow>
     (let today = utcnow_date w;
          is_past = date_lt dt today;
          url = base_url is_past;
          params = weather_params lat lon date
      in
     (case fetch_metrics w url params of
        Inl e \<Rightarrow>
          (Inr (502, error_body (''Weather data unavailable: '' @ exc_str w e)), [(url, params)])
      | Inr (temp, wind, precip, humidity) \<Rightarrow>
     (case classify_conditions temp wind precip humidity of
        Inl e \<Rightarrow> (Inl e, [(url, params)])
      | Inr conditions \<Rightarrow>
     (case get_location_name w lat lon of
        Inl e \<Rightarrow> (Inl e, [(url, params), (geocode_url w lat lon, [])])
      | Inr location_name \<Rightarrow>
          (Inr (200, PDict [(''location_name'', location_name), (''date'', date),
                            (''summary'', PStr (get_summary conditions)),
                            (''conditions'', PList (map condition_json conditions))]),
           [(url, params), (geocode_url w lat lon, [])])))))))))"


section \<open>Notions of the specification\<close>

text \<open>
  The words of the specification that the statements below need. A request body is any
  JSON value; it is an \<^emph>\<open>object\<close> or not, and only an object has fields. A field of
  the request body is \<^emph>\<open>absent or falsy\<close>. A coordinate is \<^emph>\<open>formattable\<close>: a number that
  a float can hold. A request is \<^emph>\<open>validated\<close>: its body is an object whose
  three fields are present and truthy and whose date parses, to \<open>dt\<close>. The weather provider's answer is a \<^emph>\<open>failure\<close>: a
  transport error, a status that is not a success, or a body that is not JSON. The
  geocoder's answer has \<^emph>\<open>a display name\<close>: a success whose JSON object holds the field.
  The weather JSON \<^emph>\<open>lacks the hourly object\<close>: it is no object, or has no such key; the
  lookup then raises \<open>hourly_error\<close>.
\<close>

definition is_object :: "pyval \<Rightarrow> bool" where
  "is_object data = (case data of PDict kvs \<Rightarrow> True | _ \<Rightarrow> False)"

definition body_field :: "pyval \<Rightarrow> string \<Rightarrow> pyval option" where
  "body_field data k = (case data of PDict kvs \<Rightarrow> map_of kvs k | _ \<Rightarrow> None)"

definition absent_or_falsy :: "pyval \<Rightarrow> string \<Rightarrow> bool" where
  "absent_or_falsy data k =
     (case body_field data k of None \<Rightarrow> True | Some v \<Rightarrow> \<not> truthy v)"

definition formattable :: "pyval \<Rightarrow> bool" where
  "formattable v =
     (case v of
        PFloat r \<Rightarrow> True
      | PBool b \<Rightarrow> True
      | PInt i \<Rightarrow> \<bar>real_of_int i\<bar> < float_bound
      | _ \<Rightarrow> False)"

definition validated ::
  "world \<Rightarrow> (string \<times> pyval) list \<Rightarrow> pyval \<Rightarrow> pyval \<Rightarrow> pyval \<Rightarrow> date \<Rightarrow> bool" where
  "validated w kvs lat lon date dt \<longleftrightarrow>
     map_of kvs ''lat'' = Some lat \<and> truthy lat \<and>
     map_of kvs ''lon'' = Some lon \<and> truthy lon \<and>
     map_of kvs ''date'' = Some date \<and> truthy date \<and>
     py_strptime w date = Inr dt"

definition provider_failure :: "exn + response \<Rightarrow> exn option" where
  "provider_failure r =
     (case r of
        Inl e \<Rightarrow> Some e
      | Inr resp \<Rightarrow>
          if \<not> ok resp then Some (HTTPError (status_code resp))
          else (case json_result resp of Inl e \<Rightarrow> Some e | Inr j \<Rightarrow> None))"

definition display_name_of :: "exn + response \<Rightarrow> pyval option" where
  "display_name_of r =
     (case r of
        Inl e \<Rightarrow> None
      | Inr resp \<Rightarrow>
          if ok resp then
            (case json_result resp of
               Inr (PDict kvs) \<Rightarrow> map_of kvs ''display_name''
             | _ \<Rightarrow> None)
          else None)"

definition lacks_hourly :: "pyval \<Rightarrow> bool" where
  "lacks_hourly j = (case j of PDict kvs \<Rightarrow> map_of kvs ''hourly'' = None | _ \<Rightarrow> True)"

definition hourly_error :: "pyval \<Rightarrow> exn" where
  "hourly_error j = (case j of PDict kvs \<Rightarrow> KeyError ''hourly'' | _ \<Rightarrow> TypeError)"

text \<open>
  The classifier as the specification words it: the matches of the rows whose strict
  threshold holds of the four metrics, in the order of the table.
\<close>

definition threshold_holds :: "string \<Rightarrow> real \<Rightarrow> real \<Rightarrow> real \<Rightarrow> real \<Rightarrow> bool" where
  "threshold_holds l t w p h =
     (if l = ''Very Hot'' then t > 35
      else if l = ''Very Cold'' then t < 5
      else if l = ''Very Windy'' then w > 40
      else if l = ''Very Wet'' then p > 10
      else if l = ''Very Uncomfortable'' then h > 80
      else False)"

definition classify_spec :: "real \<Rightarrow> real \<Rightarrow> real \<Rightarrow> real \<Rightarrow> condition list" where
  "classify_spec t w p h =
     map match_of (filter (\<lambda>r. threshold_holds (rule_label r) t w p h) CONDITION_RULES)"

section \<open>Sample worlds\<close>

text \<open>
  Concrete worlds, for evaluating the handler. Today is 2024-06-15; the library
  functions are given on the few values the samples use. \<open>sample_world wa ga\<close> answers
  a GET to either weather endpoint with \<open>wa\<close> and any other GET with \<open>ga\<close>.
\<close>

definition sample_today :: date where
  "sample_today = \<lparr>year = 2024, month = 6, day = 15\<rparr>"

definition sample_strptime :: "string \<Rightarrow> date option" where
  "sample_strptime s =
     (if s = ''2000-01-01'' then Some \<lparr>year = 2000, month = 1, day = 1\<rparr>
      else if s = ''2024-06-15'' then Some sample_today
      else if s = ''2099-01-01'' then Some \<lparr>year = 2099, month = 1, day = 1\<rparr>
      else None)"

definition sample_exc_str :: "exn \<Rightarrow> string" where
  "sample_exc_str e =
     (case e of
        KeyError k \<Rightarrow> [CHR 0x27] @ k @ [CHR 0x27]
      | NameError n \<Rightarrow> n
      | RequestException m \<Rightarrow> m
      | JSONDecodeError m \<Rightarrow> m
      | HTTPError n \<Rightarrow> ''HTTP error''
      | TypeError \<Rightarrow> ''type error''
      | AttributeError \<Rightarrow> ''attribute error''
      | ValueError \<Rightarrow> ''value error''
      | ZeroDivisionError \<Rightarrow> ''division by zero''
      | OverflowError \<Rightarrow> ''int too large to convert to float'')"

definition sample_format_2f :: "real \<Rightarrow> string" where
  "sample_format_2f r =
     (if r = 48.85 then ''48.85'' else if r = 2.35 then ''2.35'' else ''0.00'')"

definition sample_val_str :: "pyval \<Rightarrow> string" where
  "sample_val_str v =
     (case v of PFloat r \<Rightarrow> sample_format_2f r | PStr s \<Rightarrow> s | _ \<Rightarrow> ''None'')"

definition sample_world :: "exn + response \<Rightarrow> exn + response \<Rightarrow> world" where
  "sample_world wa ga =
     \<lparr>utcnow_date = sample_today,
      http_get = (\<lambda>url params. if url = archive_url \<or> url = forecast_url then wa else ga),
      strptime_ymd = sample_strptime,
      exc_str = sample_exc_str,
      val_str = sample_val_str,
      format_2f = sample_format_2f\<rparr>"

definition json_answer :: "pyval \<Rightarrow> exn + response" where
  "json_answer j = Inr \<lparr>ok = True, status_code = 200, json_result = Inr j\<rparr>"

definition sample_request :: "string \<Rightarrow> (string \<times> pyval) list" where
  "sample_request d = [(''lat'', PFloat 48.85), (''lon'', PFloat 2.35), (''date'', PStr d)]"


section \<open>The rule table: what each predicate does when called\<close>

lemma py_gt_num:
  "py_gt v (PInt c) =
     (case num_of v of None \<Rightarrow> Inl TypeError | Some x \<Rightarrow> Inr (x > of_int c))"
  by (cases v) auto

lemma py_lt_num:
  "py_lt v (PInt c) =
     (case num_of v of None \<Rightarrow> Inl TypeError | Some x \<Rightarrow> Inr (x < of_int c))"
  by (cases v) (auto simp: py_lt_def)

lemma rule_labels:
  "rule_label rule_very_hot = ''Very Hot''"
  "rule_label rule_very_cold = ''Very Cold''"
  "rule_label rule_very_windy = ''Very Windy''"
  "rule_label rule_very_wet = ''Very Wet''"
  "rule_label rule_very_uncomfortable = ''Very Uncomfortable''"
  by (simp_all add: rule_very_hot_def rule_very_cold_def rule_very_windy_def rule_very_wet_def
      rule_very_uncomfortable_def)

text \<open>The first three predicates take their parameter by position, and compare it.\<close>

lemma call_very_hot:
  "call_lambda (rule_pred rule_very_hot) [t, w, p, h] =
     (case num_of t of None \<Rightarrow> Inl TypeError | Some x \<Rightarrow> Inr (PBool (x > 35)))"
  by (simp add: call_lambda_def bind_args_def rule_very_hot_def py_gt_num split: option.splits)

lemma call_very_cold:
  "call_lambda (rule_pred rule_very_cold) [t, w, p, h] =
     (case num_of t of None \<Rightarrow> Inl TypeError | Some x \<Rightarrow> Inr (PBool (x < 5)))"
  by (simp add: call_lambda_def bind_args_def rule_very_cold_def py_lt_num split: option.splits)

lemma call_very_windy:
  "call_lambda (rule_pred rule_very_windy) [t, w, p, h] =
     (case num_of w of None \<Rightarrow> Inl TypeError | Some x \<Rightarrow> Inr (PBool (x > 40)))"
  by (simp add: call_lambda_def bind_args_def rule_very_windy_def py_gt_num split: option.splits)

text \<open>
  The last two declare their parameter after \<^verbatim>\<open>*_\<close>, which makes it keyword-only. The
  classifier calls every predicate with four positional arguments, so the call raises
  before the body is reached, whatever the arguments are.
\<close>

lemma call_very_wet: "call_lambda (rule_pred rule_very_wet) args = Inl TypeError"
  by (simp add: call_lambda_def bind_args_def rule_very_wet_def)

lemma call_very_uncomfortable:
  "call_lambda (rule_pred rule_very_uncomfortable) args = Inl TypeError"
  by (simp add: call_lambda_def bind_args_def rule_very_uncomfortable_def)

text \<open>So the loop never gets past the fourth row: the classifier raises on every input.\<close>

lemma classify_conditions_raises: "classify_conditions t w p h = Inl TypeError"
  by (simp add: classify_conditions_def CONDITION_RULES_def call_very_hot call_very_cold
      call_very_windy call_very_wet split: option.splits)

text \<open>On the first three rows alone the loop computes what the specification says.\<close>

lemma classify_first_rows:
  "classify_loop [rule_very_hot, rule_very_cold, rule_very_windy]
       [PFloat t, PFloat w, PFloat p, PFloat h] [] =
     Inr (map match_of (filter (\<lambda>r. threshold_holds (rule_label r) t w p h)
            [rule_very_hot, rule_very_cold, rule_very_windy]))"
  by (simp add: call_very_hot call_very_cold call_very_windy threshold_holds_def rule_labels)

text \<open>At the metrics (0, 0, 0, 0) the specification's classifier matches Very Cold, since
  0 is below 5.\<close>

lemma classify_spec_zero: "classify_spec 0 0 0 0 = [match_of rule_very_cold]"
  by (simp add: classify_spec_def CONDITION_RULES_def threshold_holds_def rule_labels)

text \<open>When the loop returns, it returns the matches of the rows that fired, in order.\<close>

lemma classify_loop_filter:
  "classify_loop rs args acc = Inr res \<Longrightarrow> res = acc @ map match_of (filter (fires args) rs)"
proof (induction rs arbitrary: acc)
  case Nil
  then show ?case by simp
next
  case (Cons r rs)
  show ?case
  proof (cases "call_lambda (rule_pred r) args")
    case (Inl e)
    with Cons.prems show ?thesis by simp
  next
    case (Inr v)
    with Cons.prems
    have "classify_loop rs args (if truthy v then acc @ [match_of r] else acc) = Inr res"
      by simp
    from Cons.IH [OF this] Inr show ?thesis
      by (simp add: fires_def)
  qed
qed

lemma match_label: "label (match_of r) = rule_label r"
  by (simp add: match_of_def)

lemma classify_loop_labels:
  assumes "classify_loop rs args [] = Inr res" and "c \<in> set res"
  shows "\<exists>r\<in>set rs. fires args r \<and> label c = rule_label r"
  using classify_loop_filter [OF assms(1)] assms(2) by (auto simp: match_label)

lemma table_labels:
  "r \<in> set CONDITION_RULES \<Longrightarrow>
     rule_label r \<in> {''Very Hot'', ''Very Cold'', ''Very Windy'', ''Very Wet'', ''Very Uncomfortable''}"
  by (auto simp: CONDITION_RULES_def rule_labels)

lemma table_row_by_label:
  assumes "r \<in> set CONDITION_RULES"
  shows "(rule_label r = ''Very Hot'' \<longrightarrow> r = rule_very_hot)
       \<and> (rule_label r = ''Very Cold'' \<longrightarrow> r = rule_very_cold)"
  using assms by (auto simp: CONDITION_RULES_def rule_labels)

lemma fires_very_hot:
  "fires [t, w, p, h] rule_very_hot \<longleftrightarrow> (\<exists>x. num_of t = Some x \<and> x > 35)"
  by (simp add: fires_def call_very_hot split: option.splits)

lemma fires_very_cold:
  "fires [t, w, p, h] rule_very_cold \<longleftrightarrow> (\<exists>x. num_of t = Some x \<and> x < 5)"
  by (simp add: fires_def call_very_cold split: option.splits)

lemma hot_cold_exclusive:
  "\<not> (fires [t, w, p, h] rule_very_hot \<and> fires [t, w, p, h] rule_very_cold)"
  by (auto simp: fires_very_hot fires_very_cold)

section \<open>The classifier\<close>

text \<open>
  Claim C1. The specification has the classifier succeed on every tuple of metrics and
  return the matches of the rows whose strict threshold holds. The code does not: on
  the metrics (40, 50, 20, 90), where the specification's classifier returns the four
  matches Very Hot, Very Windy, Very Wet and Very Uncomfortable, \<^verbatim>\<open>classify_conditions\<close>
  raises \<^verbatim>\<open>TypeError\<close>, at the call of the keyword-only predicate of the fourth row (as
  it does on every input, by \<open>classify_conditions_raises\<close>).
\<close>

theorem adverse_day_classification_raises:
  "classify_conditions (PFloat 40) (PFloat 50) (PFloat 20) (PFloat 90) = Inl TypeError \<and>
   classify_spec 40 50 20 90 =
     map match_of [rule_very_hot, rule_very_windy, rule_very_wet, rule_very_uncomfortable]"
  by (simp add: classify_conditions_raises classify_spec_def CONDITION_RULES_def
      threshold_holds_def rule_labels)

text \<open>
  Claim C8. No output of the classifier holds both a Very Hot and a Very Cold match. The
  two predicates never fire on the same arguments, since no temperature is both above
  35 and below 5; and whatever rows of the table the loop runs over (the whole table
  included), a list it returns does not hold both labels.
\<close>

theorem hot_and_cold_never_both:
  "\<not> (fires [t, w, p, h] rule_very_hot \<and> fires [t, w, p, h] rule_very_cold)
   \<and> (set rs \<subseteq> set CONDITION_RULES \<longrightarrow> classify_loop rs [t, w, p, h] [] = Inr res \<longrightarrow>
        \<not> (''Very Hot'' \<in> label ` set res \<and> ''Very Cold'' \<in> label ` set res))"
proof (intro conjI impI)
  show "\<not> (fires [t, w, p, h] rule_very_hot \<and> fires [t, w, p, h] rule_very_cold)"
    by (rule hot_cold_exclusive)
next
  assume sub: "set rs \<subseteq> set CONDITION_RULES"
    and run: "classify_loop rs [t, w, p, h] [] = Inr res"
  show "\<not> (''Very Hot'' \<in> label ` set res \<and> ''Very Cold'' \<in> label ` set res)"
  proof
    assume both: "''Very Hot'' \<in> label ` set res \<and> ''Very Cold'' \<in> label ` set res"
    then obtain c where "c \<in> set res" "label c = ''Very Hot''" by auto
    with classify_loop_labels [OF run] obtain r where
      r: "r \<in> set rs" "fires [t, w, p, h] r" "rule_label r = ''Very Hot''" by metis
    with sub table_row_by_label [of r] have hot: "fires [t, w, p, h] rule_very_hot" by auto
    from both obtain d where "d \<in> set res" "label d = ''Very Cold''" by auto
    with classify_loop_labels [OF run] obtain q where
      q: "q \<in> set rs" "fires [t, w, p, h] q" "rule_label q = ''Very Cold''" by metis
    with sub table_row_by_label [of q] have "fires [t, w, p, h] rule_very_cold" by auto
    with hot hot_cold_exclusive show False by blast
  qed
qed

theorem hot_and_cold_never_both_witness:
  "set [rule_very_hot, rule_very_cold] \<subseteq> set CONDITION_RULES \<and>
   classify_loop [rule_very_hot, rule_very_cold] [PFloat 40, PInt 0, PInt 0, PInt 0] [] =
     Inr [match_of rule_very_hot] \<and>
   \<not> (''Very Hot'' \<in> label ` set [match_of rule_very_hot] \<and>
      ''Very Cold'' \<in> label ` set [match_of rule_very_hot])"
proof -
  have sub: "set [rule_very_hot, rule_very_cold] \<subseteq> set CONDITION_RULES"
    by (simp add: CONDITION_RULES_def)
  have run: "classify_loop [rule_very_hot, rule_very_cold] [PFloat 40, PInt 0, PInt 0, PInt 0] [] =
     Inr [match_of rule_very_hot]"
    by (simp add: call_very_hot call_very_cold)
  from hot_and_cold_never_both [of "PFloat 40" "PInt 0" "PInt 0" "PInt 0"
      "[rule_very_hot, rule_very_cold]" "[match_of rule_very_hot]"] sub run
  show ?thesis by blast
qed


section \<open>The summary\<close>

lemma py_any_ex: "py_any (map P xs) = (\<exists>x\<in>set xs. P x)"
  by (induction xs) auto

lemma py_in_set: "py_in x ys = (x \<in> set ys)"
  by (induction ys) auto

lemma get_summary_char:
  "get_summary cs =
     (if cs = [] then ''Great day for outdoor activities!''
      else if \<exists>c\<in>set cs. label c \<in> {''Very Hot'', ''Very Wet'', ''Very Uncomfortable''}
        then ''This day looks uncomfortable for hiking. Best to plan indoors.''
      else if \<exists>c\<in>set cs. label c = ''Very Windy''
        then ''Windy conditions. Caution advised for outdoor events.''
      else if \<exists>c\<in>set cs. label c = ''Very Cold''
        then ''Dress warmly for outdoor activities.''
      else ''Check conditions before heading out.'')"
  unfolding get_summary_def py_any_ex py_in_set by simp

lemma summary_of_table_labels:
  assumes "cs \<noteq> []"
    and "\<forall>c\<in>set cs. label c \<in>
           {''Very Hot'', ''Very Cold'', ''Very Windy'', ''Very Wet'', ''Very Uncomfortable''}"
  shows "get_summary cs \<noteq> ''Check conditions before heading out.''"
proof -
  from assms(1) obtain c where c: "c \<in> set cs" by (cases cs) auto
  with assms(2) have "label c \<in> {''Very Hot'', ''Very Wet'', ''Very Uncomfortable''}
      \<or> label c = ''Very Windy'' \<or> label c = ''Very Cold''" by auto
  with c have "(\<exists>c\<in>set cs. label c \<in> {''Very Hot'', ''Very Wet'', ''Very Uncomfortable''})
      \<or> (\<exists>c\<in>set cs. label c = ''Very Windy'') \<or> (\<exists>c\<in>set cs. label c = ''Very Cold'')"
    by blast
  then show ?thesis
    unfolding get_summary_char using assms(1) by auto
qed

text \<open>
  Claim C6. \<^verbatim>\<open>get_summary\<close> picks one sentence by priority: the empty list gives the
  great-day sentence; else any of Very Hot, Very Wet, Very Uncomfortable gives the
  indoors sentence; else Very Windy the windy one; else Very Cold the dress-warmly one;
  else the default. The default is out of reach of the classifier: whatever rows of the
  table the loop runs over (the whole table included), the summary of a list it returns
  is not the default.
\<close>

theorem get_summary_priority:
  "get_summary cs =
     (if cs = [] then ''Great day for outdoor activities!''
      else if \<exists>c\<in>set cs. label c \<in> {''Very Hot'', ''Very Wet'', ''Very Uncomfortable''}
        then ''This day looks uncomfortable for hiking. Best to plan indoors.''
      else if \<exists>c\<in>set cs. label c = ''Very Windy''
        then ''Windy conditions. Caution advised for outdoor events.''
      else if \<exists>c\<in>set cs. label c = ''Very Cold''
        then ''Dress warmly for outdoor activities.''
      else ''Check conditions before heading out.'')
   \<and> (set rs \<subseteq> set CONDITION_RULES \<longrightarrow> classify_loop rs args [] = Inr res \<longrightarrow>
        get_summary res \<noteq> ''Check conditions before heading out.'')"
proof (intro conjI impI)
  show "get_summary cs =
     (if cs = [] then ''Great day for outdoor activities!''
      else if \<exists>c\<in>set cs. label c \<in> {''Very Hot'', ''Very Wet'', ''Very Uncomfortable''}
        then ''This day looks uncomfortable for hiking. Best to plan indoors.''
      else if \<exists>c\<in>set cs. label c = ''Very Windy''
        then ''Windy conditions. Caution advised for outdoor events.''
      else if \<exists>c\<in>set cs. label c = ''Very Cold''
        then ''Dress warmly for outdoor activities.''
      else ''Check conditions before heading out.'')"
    by (rule get_summary_char)
next
  assume sub: "set rs \<subseteq> set CONDITION_RULES" and run: "classify_loop rs args [] = Inr res"
  show "get_summary res \<noteq> ''Check conditions before heading out.''"
  proof (cases "res = []")
    case True
    then show ?thesis by (simp add: get_summary_def)
  next
    case False
    have "\<forall>c\<in>set res. label c \<in>
        {''Very Hot'', ''Very Cold'', ''Very Windy'', ''Very Wet'', ''Very Uncomfortable''}"
    proof
      fix c assume "c \<in> set res"
      from classify_loop_labels [OF run this]
      obtain r where "r \<in> set rs" "label c = rule_label r"
        by blast
      with sub table_labels [of r] show "label c \<in>
        {''Very Hot'', ''Very Cold'', ''Very Windy'', ''Very Wet'', ''Very Uncomfortable''}"
        by auto
    qed
    with False show ?thesis by (rule summary_of_table_labels)
  qed
qed

theorem get_summary_priority_witness:
  "set [rule_very_cold, rule_very_windy] \<subseteq> set CONDITION_RULES \<and>
   classify_loop [rule_very_cold, rule_very_windy] [PInt 0, PFloat 50, PInt 0, PInt 0] [] =
     Inr [match_of rule_very_cold, match_of rule_very_windy] \<and>
   get_summary [match_of rule_very_cold, match_of rule_very_windy] =
     ''Windy conditions. Caution advised for outdoor events.'' \<and>
   get_summary [match_of rule_very_cold, match_of rule_very_windy] \<noteq>
     ''Check conditions before heading out.''"
proof -
  have sub: "set [rule_very_cold, rule_very_windy] \<subseteq> set CONDITION_RULES"
    by (simp add: CONDITION_RULES_def)
  have run: "classify_loop [rule_very_cold, rule_very_windy]
      [PInt 0, PFloat 50, PInt 0, PInt 0] [] =
      Inr [match_of rule_very_cold, match_of rule_very_windy]"
    by (simp add: call_very_cold call_very_windy)
  note inst = get_summary_priority [of "[match_of rule_very_cold, match_of rule_very_windy]"
      "[rule_very_cold, rule_very_windy]" "[PInt 0, PFloat 50, PInt 0, PInt 0]"
      "[match_of rule_very_cold, match_of rule_very_windy]"]
  from inst have "get_summary [match_of rule_very_cold, match_of rule_very_windy] =
     ''Windy conditions. Caution advised for outdoor events.''"
    by (simp add: match_label rule_labels)
  moreover from inst sub run
  have "get_summary [match_of rule_very_cold, match_of rule_very_windy] \<noteq>
     ''Check conditions before heading out.''"
    by blast
  ultimately show ?thesis using sub run by blast
qed

section \<open>The location name\<close>

text \<open>The coordinates that format are the formattable ones: every float and \<^verbatim>\<open>bool\<close>, and
  the integers within the range of a float.\<close>

lemma py_format_2f_formattable: "(\<exists>a. py_format_2f w v = Inr a) \<longleftrightarrow> formattable v"
  by (cases v) (auto simp: py_format_2f_def formattable_def int_to_float_def)

text \<open>When a coordinate does not format, the function raises the formatting error: the
  \<^verbatim>\<open>try\<close> absorbs it where it builds the default, but the last line, outside the
  \<^verbatim>\<open>try\<close>, formats again.\<close>

lemma get_location_name_unformattable:
  "fallback_name w lat lon = Inl e \<Longrightarrow> get_location_name w lat lon = Inl e"
  by (auto simp: get_location_name_def location_try_def split: sum.splits option.splits)

lemma get_location_name_huge_int:
  "\<not> \<bar>real_of_int i\<bar> < float_bound \<Longrightarrow> get_location_name w (PInt i) lon = Inl OverflowError"
  by (rule get_location_name_unformattable)
    (simp add: fallback_name_def py_format_2f_def int_to_float_def)

text \<open>
  Claim C5, as the specification states it, for every (lat, lon) input, fails on the
  code: with the string coordinates \<^verbatim>\<open>"48.85"\<close> and \<^verbatim>\<open>"2.35"\<close>, which the endpoint's
  validation lets through, \<^verbatim>\<open>get_location_name\<close> raises \<^verbatim>\<open>ValueError\<close>, here in a world
  whose geocoder answers with a display name.
\<close>

theorem get_location_name_string_counterexample:
  "get_location_name
     (sample_world (Inl (RequestException ''down''))
        (json_answer (PDict [(''display_name'', PStr ''Paris'')])))
     (PStr ''48.85'') (PStr ''2.35'') = Inl ValueError"
  by (rule get_location_name_unformattable) (simp add: fallback_name_def py_format_2f_def)

text \<open>
  Claim C5, amended. On coordinates that both format to two decimals (floats,
  booleans, and integers within the range of a float), \<^verbatim>\<open>get_location_name\<close> never
  raises. It returns the display name when the geocoder answers with a success whose
  JSON object holds one, and in every other case (the GET raises, the status is not a
  success, the body is not JSON or no object, the field is missing) the fallback: the
  two formatted coordinates joined by a comma and a space.
\<close>

theorem get_location_name_result:
  assumes "py_format_2f w lat = Inr a" and "py_format_2f w lon = Inr b"
  shows "get_location_name w lat lon =
     Inr (case display_name_of (http_get w (geocode_url w lat lon) []) of
            Some v \<Rightarrow> v
          | None \<Rightarrow> PStr (a @ '', '' @ b))"
proof (cases "http_get w (geocode_url w lat lon) []")
  case (Inl e)
  with assms show ?thesis
    by (simp add: get_location_name_def location_try_def fallback_name_def display_name_of_def)
next
  case (Inr resp)
  show ?thesis
  proof (cases "json_result resp")
    case (Inl e)
    with Inr assms show ?thesis
      by (simp add: get_location_name_def location_try_def fallback_name_def
          display_name_of_def)
  next
    case json: (Inr j)
    with Inr assms show ?thesis
      by (cases j)
        (auto simp: get_location_name_def location_try_def fallback_name_def
          display_name_of_def split: option.splits)
  qed
qed

theorem get_location_name_result_witness:
  "py_format_2f (sample_world (Inl (RequestException ''down'')) (Inl (RequestException ''down'')))
     (PFloat 48.85) = Inr ''48.85'' \<and>
   py_format_2f (sample_world (Inl (RequestException ''down'')) (Inl (RequestException ''down'')))
     (PFloat 2.35) = Inr ''2.35'' \<and>
   get_location_name (sample_world (Inl (RequestException ''down'')) (Inl (RequestException ''down'')))
     (PFloat 48.85) (PFloat 2.35) = Inr (PStr ''48.85, 2.35'')"
proof -
  let ?w = "sample_world (Inl (RequestException ''down'')) (Inl (RequestException ''down''))"
  have a: "py_format_2f ?w (PFloat 48.85) = Inr ''48.85''"
    by (simp add: py_format_2f_def sample_world_def sample_format_2f_def)
  have b: "py_format_2f ?w (PFloat 2.35) = Inr ''2.35''"
    by (simp add: py_format_2f_def sample_world_def sample_format_2f_def)
  have g: "display_name_of (http_get ?w (geocode_url ?w (PFloat 48.85) (PFloat 2.35)) []) = None"
    by (simp add: sample_world_def display_name_of_def geocode_url_def archive_url_def
        forecast_url_def)
  from get_location_name_result [OF a b] g
  have "get_location_name ?w (PFloat 48.85) (PFloat 2.35) = Inr (PStr ''48.85, 2.35'')"
    by simp
  with a b show ?thesis by blast
qed

text \<open>In a world whose geocoder answers, the display name is returned.\<close>

lemma get_location_name_sample_success:
  "get_location_name
     (sample_world (Inl (RequestException ''down''))
        (json_answer (PDict [(''display_name'', PStr ''Paris'')])))
     (PFloat 48.85) (PFloat 2.35) = Inr (PStr ''Paris'')"
  by (simp add: get_location_name_def location_try_def fallback_name_def py_format_2f_def
      sample_world_def json_answer_def geocode_url_def archive_url_def forecast_url_def)

section \<open>The endpoint\<close>

text \<open>No request is answered with status 200: a request that gets past the weather
  provider reaches the classifier, which raises.\<close>

lemma weather_never_200: "fst (weather w data) \<noteq> Inr (200, b)"
  by (auto simp: weather_def Let_def error_body_def classify_conditions_raises
      split: option.splits sum.splits prod.splits)

text \<open>A validated request goes to the weather provider; it ends with status 502 when the
  \<^verbatim>\<open>try\<close> raises, and with the classifier's exception otherwise.\<close>

lemma weather_validated:
  assumes "validated w kvs lat lon date dt"
  shows "weather w (PDict kvs) =
    (let url = base_url (date_lt dt (utcnow_date w)); params = weather_params lat lon date in
     case fetch_metrics w url params of
       Inl e \<Rightarrow>
         (Inr (502, error_body (''Weather data unavailable: '' @ exc_str w e)), [(url, params)])
     | Inr m \<Rightarrow> (Inl TypeError, [(url, params)]))"
  using assms
  by (auto simp: validated_def weather_def Let_def classify_conditions_raises
      split: sum.splits prod.splits)

lemma weather_calls:
  assumes "validated w kvs lat lon date dt"
  shows "snd (weather w (PDict kvs)) =
           [(base_url (date_lt dt (utcnow_date w)), weather_params lat lon date)]"
  by (simp add: weather_validated [OF assms] Let_def split: sum.splits)

lemma fetch_metrics_failure:
  "provider_failure (http_get w url params) = Some e \<Longrightarrow> fetch_metrics w url params = Inl e"
  by (auto simp: provider_failure_def fetch_metrics_def raise_for_status_def
      split: sum.splits if_splits)

lemma fetch_metrics_lacks_hourly:
  assumes "http_get w url params = Inr resp" "ok resp" "json_result resp = Inr j"
    "lacks_hourly j"
  shows "fetch_metrics w url params = Inl (hourly_error j)"
  using assms
  by (cases j)
    (auto simp: fetch_metrics_def raise_for_status_def lacks_hourly_def hourly_error_def)

lemma date_lt_trichotomy: "\<not> date_lt a b \<longleftrightarrow> a = b \<or> date_lt b a"
  by (cases a, cases b) (auto simp: date_lt_def)

lemma urls_differ: "archive_url \<noteq> forecast_url"
  by (simp add: archive_url_def forecast_url_def)

lemma daily_metrics_absent_or_empty:
  assumes "\<forall>k\<in>{''temperature_2m'', ''windspeed_10m'', ''precipitation'', ''relativehumidity_2m''}.
             map_of h k = None \<or> map_of h k = Some (PList [])"
  shows "daily_metrics (PDict h) = Inr (PInt 0, PInt 0, PInt 0, PInt 0)"
  using assms
  by (auto simp: daily_metrics_def mean_or_zero_def max_or_zero_def sum_or_zero_def
      py_sum_def)

lemma sample_request_validated:
  "sample_strptime d = Some dt \<Longrightarrow> d \<noteq> [] \<Longrightarrow>
     validated (sample_world wa ga) (sample_request d) (PFloat 48.85) (PFloat 2.35) (PStr d) dt"
  by (simp add: validated_def sample_request_def sample_world_def py_strptime_def)

text \<open>
  Claim C2. With an hourly object that holds none of the four series, the metrics are
  (0, 0, 0, 0) and the summary of no conditions is the great-day sentence, as the
  specification says; but the classifier in between raises. The request for 2099-01-01
  in the sample world, whose weather provider answers \<^verbatim>\<open>{"hourly": {}}\<close>, ends with the
  \<^verbatim>\<open>TypeError\<close> leaving the view function, after the one GET to the forecast endpoint:
  no summary is returned.
\<close>

theorem empty_series_request_raises:
  "daily_metrics (PDict []) = Inr (PInt 0, PInt 0, PInt 0, PInt 0) \<and>
   get_summary [] = ''Great day for outdoor activities!'' \<and>
   classify_conditions (PInt 0) (PInt 0) (PInt 0) (PInt 0) = Inl TypeError \<and>
   weather (sample_world (json_answer (PDict [(''hourly'', PDict [])]))
              (Inl (RequestException ''unreachable'')))
     (PDict (sample_request ''2099-01-01'')) =
   (Inl TypeError,
    [(forecast_url, weather_params (PFloat 48.85) (PFloat 2.35) (PStr ''2099-01-01''))])"
proof (intro conjI)
  show "daily_metrics (PDict []) = Inr (PInt 0, PInt 0, PInt 0, PInt 0)"
    by (rule daily_metrics_absent_or_empty) simp
  show "get_summary [] = ''Great day for outdoor activities!''"
    by (simp add: get_summary_def)
  show "classify_conditions (PInt 0) (PInt 0) (PInt 0) (PInt 0) = Inl TypeError"
    by (rule classify_conditions_raises)
  have v: "validated
      (sample_world (json_answer (PDict [(''hourly'', PDict [])]))
         (Inl (RequestException ''unreachable'')))
      (sample_request ''2099-01-01'') (PFloat 48.85) (PFloat 2.35) (PStr ''2099-01-01'')
      \<lparr>year = 2099, month = 1, day = 1\<rparr>"
    by (rule sample_request_validated) (simp_all add: sample_strptime_def)
  have m: "daily_metrics (PDict []) = Inr (PInt 0, PInt 0, PInt 0, PInt 0)"
    by (rule daily_metrics_absent_or_empty) simp
  have f: "fetch_metrics
      (sample_world (json_answer (PDict [(''hourly'', PDict [])]))
         (Inl (RequestException ''unreachable'')))
      forecast_url (weather_params (PFloat 48.85) (PFloat 2.35) (PStr ''2099-01-01'')) =
      Inr (PInt 0, PInt 0, PInt 0, PInt 0)"
    by (simp add: fetch_metrics_def sample_world_def json_answer_def raise_for_status_def m)
  have u: "base_url (date_lt \<lparr>year = 2099, month = 1, day = 1\<rparr> sample_today) = forecast_url"
    by (simp add: base_url_def date_lt_def sample_today_def)
  have t: "utcnow_date (sample_world (json_answer (PDict [(''hourly'', PDict [])]))
         (Inl (RequestException ''unreachable''))) = sample_today"
    by (simp add: sample_world_def)
  show "weather (sample_world (json_answer (PDict [(''hourly'', PDict [])]))
              (Inl (RequestException ''unreachable'')))
     (PDict (sample_request ''2099-01-01'')) =
   (Inl TypeError,
    [(forecast_url, weather_params (PFloat 48.85) (PFloat 2.35) (PStr ''2099-01-01''))])"
    unfolding weather_validated [OF v] t u Let_def f by simp
qed

text \<open>A body that is valid JSON but no object has no \<^verbatim>\<open>get\<close>: the first lookup raises,
  outside any \<^verbatim>\<open>try\<close>, and the request ends in the unhandled \<^verbatim>\<open>AttributeError\<close>.\<close>

lemma weather_non_object_body: "\<not> is_object data \<Longrightarrow> weather w data = (Inl AttributeError, [])"
  by (cases data) (simp_all add: weather_def is_object_def)

text \<open>
  Claim C3, as the specification states it, for every request body, fails on the code:
  in the body \<^verbatim>\<open>null\<close> every field is absent, and the answer is not the status 400 but
  the unhandled \<^verbatim>\<open>AttributeError\<close> of \<^verbatim>\<open>data.get\<close>.
\<close>

theorem missing_fields_null_body_counterexample:
  "absent_or_falsy PNone ''lat'' \<and>
   fst (weather (sample_world (Inl (RequestException ''down'')) (Inl (RequestException ''down'')))
          PNone) = Inl AttributeError \<and>
   fst (weather (sample_world (Inl (RequestException ''down'')) (Inl (RequestException ''down'')))
          PNone) \<noteq> Inr (400, PDict [(''error'', PStr ''Missing lat, lon, or date'')])"
  by (simp add: absent_or_falsy_def body_field_def weather_def)

text \<open>
  Claim C3, amended. For every request body that is a JSON object in which one of
  \<^verbatim>\<open>lat\<close>, \<^verbatim>\<open>lon\<close>, \<^verbatim>\<open>date\<close> is absent or falsy (the number 0 is falsy), the answer is
  status 400 with the body \<^verbatim>\<open>{"error": "Missing lat, lon, or date"}\<close>, and no other
  request, whatever its body, gets this answer.
\<close>

theorem weather_missing_fields_iff:
  "fst (weather w data) =
     Inr (400, PDict [(''error'', PStr ''Missing lat, lon, or date'')])
   \<longleftrightarrow> is_object data \<and>
       (absent_or_falsy data ''lat'' \<or> absent_or_falsy data ''lon'' \<or>
        absent_or_falsy data ''date'')"
proof (cases data)
  case (PDict kvs)
  then show ?thesis
    by (auto simp: weather_def absent_or_falsy_def body_field_def is_object_def Let_def
        error_body_def classify_conditions_raises split: option.splits sum.splits prod.splits)
qed (simp_all add: weather_def is_object_def)

theorem weather_missing_fields_iff_witness:
  "is_object (PDict [(''lat'', PInt 0), (''lon'', PFloat 2.35), (''date'', PStr ''2024-06-15'')]) \<and>
   absent_or_falsy
     (PDict [(''lat'', PInt 0), (''lon'', PFloat 2.35), (''date'', PStr ''2024-06-15'')]) ''lat'' \<and>
   fst (weather (sample_world (Inl (RequestException ''down'')) (Inl (RequestException ''down'')))
          (PDict [(''lat'', PInt 0), (''lon'', PFloat 2.35), (''date'', PStr ''2024-06-15'')])) =
     Inr (400, PDict [(''error'', PStr ''Missing lat, lon, or date'')]) \<and>
   \<not> (absent_or_falsy (PDict (sample_request ''2024-06-15'')) ''lat'' \<or>
      absent_or_falsy (PDict (sample_request ''2024-06-15'')) ''lon'' \<or>
      absent_or_falsy (PDict (sample_request ''2024-06-15'')) ''date'') \<and>
   fst (weather (sample_world (Inl (RequestException ''down'')) (Inl (RequestException ''down'')))
          (PDict (sample_request ''2024-06-15''))) \<noteq>
     Inr (400, PDict [(''error'', PStr ''Missing lat, lon, or date'')])"
  using weather_missing_fields_iff
      [of "sample_world (Inl (RequestException ''down'')) (Inl (RequestException ''down''))"
        "PDict [(''lat'', PInt 0), (''lon'', PFloat 2.35), (''date'', PStr ''2024-06-15'')]"]
    weather_missing_fields_iff
      [of "sample_world (Inl (RequestException ''down'')) (Inl (RequestException ''down''))"
        "PDict (sample_request ''2024-06-15'')"]
  by (simp add: absent_or_falsy_def body_field_def is_object_def sample_request_def)

text \<open>
  Claim C4. On a validated request, when the call of the weather provider fails (the GET
  raises, the status is not a success, or the body is not JSON), the answer is status
  502 with the error message \<^verbatim>\<open>Weather data unavailable: \<close> followed by the text of
  the failure; the handler stops there, after the one GET to the weather endpoint.
\<close>

theorem weather_provider_failure_502:
  assumes "validated w kvs lat lon date dt"
    and "provider_failure
           (http_get w (base_url (date_lt dt (utcnow_date w))) (weather_params lat lon date)) =
         Some e"
  shows "weather w (PDict kvs) =
    (Inr (502, PDict [(''error'', PStr (''Weather data unavailable: '' @ exc_str w e))]),
     [(base_url (date_lt dt (utcnow_date w)), weather_params lat lon date)])"
  using assms by (simp add: weather_validated fetch_metrics_failure Let_def error_body_def)

theorem weather_provider_failure_502_witness:
  "validated (sample_world (Inl (RequestException ''timed out'')) (Inl (RequestException ''down'')))
     (sample_request ''2000-01-01'') (PFloat 48.85) (PFloat 2.35) (PStr ''2000-01-01'')
     \<lparr>year = 2000, month = 1, day = 1\<rparr> \<and>
   provider_failure
     (http_get (sample_world (Inl (RequestException ''timed out'')) (Inl (RequestException ''down'')))
        archive_url (weather_params (PFloat 48.85) (PFloat 2.35) (PStr ''2000-01-01''))) =
     Some (RequestException ''timed out'') \<and>
   weather (sample_world (Inl (RequestException ''timed out'')) (Inl (RequestException ''down'')))
     (PDict (sample_request ''2000-01-01'')) =
   (Inr (502, PDict [(''error'', PStr ''Weather data unavailable: timed out'')]),
    [(archive_url, weather_params (PFloat 48.85) (PFloat 2.35) (PStr ''2000-01-01''))])"
proof -
  let ?w = "sample_world (Inl (RequestException ''timed out'')) (Inl (RequestException ''down''))"
  have v: "validated ?w (sample_request ''2000-01-01'') (PFloat 48.85) (PFloat 2.35)
      (PStr ''2000-01-01'') \<lparr>year = 2000, month = 1, day = 1\<rparr>"
    by (rule sample_request_validated) (simp_all add: sample_strptime_def)
  have u: "base_url (date_lt \<lparr>year = 2000, month = 1, day = 1\<rparr> (utcnow_date ?w)) = archive_url"
    by (simp add: base_url_def date_lt_def sample_today_def sample_world_def)
  have f: "provider_failure
      (http_get ?w archive_url (weather_params (PFloat 48.85) (PFloat 2.35) (PStr ''2000-01-01''))) =
      Some (RequestException ''timed out'')"
    by (simp add: provider_failure_def sample_world_def)
  have x: "exc_str ?w (RequestException ''timed out'') = ''timed out''"
    by (simp add: sample_world_def sample_exc_str_def)
  from weather_provider_failure_502 [OF v, unfolded u, OF f] v f
  show ?thesis by (simp add: x)
qed

text \<open>
  Claim C7. On a validated request the weather endpoint is chosen by the date: the one
  GET for weather data goes to the historical archive when the requested date is
  before the current UTC date, and to the forecast endpoint otherwise, that is, when
  the date is today or later. The two endpoints differ.
\<close>

theorem weather_endpoint_by_recency:
  assumes "validated w kvs lat lon date dt"
  shows "snd (weather w (PDict kvs)) =
       [(if date_lt dt (utcnow_date w) then archive_url else forecast_url,
         weather_params lat lon date)]
     \<and> (\<not> date_lt dt (utcnow_date w) \<longleftrightarrow> dt = utcnow_date w \<or> date_lt (utcnow_date w) dt)
     \<and> archive_url \<noteq> forecast_url"
proof (intro conjI)
  show "snd (weather w (PDict kvs)) =
       [(if date_lt dt (utcnow_date w) then archive_url else forecast_url,
         weather_params lat lon date)]"
    using weather_calls [OF assms] by (simp add: base_url_def)
  show "\<not> date_lt dt (utcnow_date w) \<longleftrightarrow> dt = utcnow_date w \<or> date_lt (utcnow_date w) dt"
    by (rule date_lt_trichotomy)
  show "archive_url \<noteq> forecast_url"
    by (rule urls_differ)
qed

theorem weather_endpoint_by_recency_witness:
  "validated (sample_world (Inl (RequestException ''down'')) (Inl (RequestException ''down'')))
     (sample_request ''2024-06-15'') (PFloat 48.85) (PFloat 2.35) (PStr ''2024-06-15'')
     sample_today \<and>
   snd (weather (sample_world (Inl (RequestException ''down'')) (Inl (RequestException ''down'')))
          (PDict (sample_request ''2024-06-15''))) =
     [(forecast_url, weather_params (PFloat 48.85) (PFloat 2.35) (PStr ''2024-06-15''))] \<and>
   validated (sample_world (Inl (RequestException ''down'')) (Inl (RequestException ''down'')))
     (sample_request ''2000-01-01'') (PFloat 48.85) (PFloat 2.35) (PStr ''2000-01-01'')
     \<lparr>year = 2000, month = 1, day = 1\<rparr> \<and>
   snd (weather (sample_world (Inl (RequestException ''down'')) (Inl (RequestException ''down'')))
          (PDict (sample_request ''2000-01-01''))) =
     [(archive_url, weather_params (PFloat 48.85) (PFloat 2.35) (PStr ''2000-01-01''))]"
proof -
  let ?w = "sample_world (Inl (RequestException ''down'')) (Inl (RequestException ''down''))"
  have today: "utcnow_date ?w = sample_today"
    by (simp add: sample_world_def)
  have v1: "validated ?w (sample_request ''2024-06-15'') (PFloat 48.85) (PFloat 2.35)
      (PStr ''2024-06-15'') sample_today"
    by (rule sample_request_validated) (simp_all add: sample_strptime_def)
  have v2: "validated ?w (sample_request ''2000-01-01'') (PFloat 48.85) (PFloat 2.35)
      (PStr ''2000-01-01'') \<lparr>year = 2000, month = 1, day = 1\<rparr>"
    by (rule sample_request_validated) (simp_all add: sample_strptime_def)
  have d1: "\<not> date_lt sample_today sample_today"
    by (simp add: date_lt_def)
  have d2: "date_lt \<lparr>year = 2000, month = 1, day = 1\<rparr> sample_today"
    by (simp add: date_lt_def sample_today_def)
  from weather_endpoint_by_recency [OF v1] d1
  have a: "snd (weather ?w (PDict (sample_request ''2024-06-15''))) =
     [(forecast_url, weather_params (PFloat 48.85) (PFloat 2.35) (PStr ''2024-06-15''))]"
    by (simp add: today)
  from weather_endpoint_by_recency [OF v2] d2
  have b: "snd (weather ?w (PDict (sample_request ''2000-01-01''))) =
     [(archive_url, weather_params (PFloat 48.85) (PFloat 2.35) (PStr ''2000-01-01''))]"
    by (simp add: today)
  from a b v1 v2 show ?thesis by blast
qed

text \<open>
  Claim C10. On a validated request, when the weather provider answers with a success
  and a JSON value that lacks the hourly object, the lookup \<^verbatim>\<open>weather["hourly"]\<close>
  raises inside the \<^verbatim>\<open>try\<close> and the answer is status 502 with the message
  \<^verbatim>\<open>Weather data unavailable: \<close> followed by the text of the lookup error; it is not
  answered as a day of four zero metrics.
\<close>

theorem weather_lacks_hourly_502:
  assumes "validated w kvs lat lon date dt"
    and "http_get w (base_url (date_lt dt (utcnow_date w))) (weather_params lat lon date) =
         Inr resp"
    and "ok resp" and "json_result resp = Inr j" and "lacks_hourly j"
  shows "weather w (PDict kvs) =
    (Inr (502, PDict [(''error'',
            PStr (''Weather data unavailable: '' @ exc_str w (hourly_error j)))]),
     [(base_url (date_lt dt (utcnow_date w)), weather_params lat lon date)])"
  using assms
  by (simp add: weather_validated fetch_metrics_lacks_hourly Let_def error_body_def)

theorem weather_lacks_hourly_502_witness:
  "validated
     (sample_world (json_answer (PDict [(''error'', PBool True)])) (Inl (RequestException ''down'')))
     (sample_request ''2099-01-01'') (PFloat 48.85) (PFloat 2.35) (PStr ''2099-01-01'')
     \<lparr>year = 2099, month = 1, day = 1\<rparr> \<and>
   http_get
     (sample_world (json_answer (PDict [(''error'', PBool True)])) (Inl (RequestException ''down'')))
     forecast_url (weather_params (PFloat 48.85) (PFloat 2.35) (PStr ''2099-01-01'')) =
     Inr \<lparr>ok = True, status_code = 200, json_result = Inr (PDict [(''error'', PBool True)])\<rparr> \<and>
   lacks_hourly (PDict [(''error'', PBool True)]) \<and>
   weather
     (sample_world (json_answer (PDict [(''error'', PBool True)])) (Inl (RequestException ''down'')))
     (PDict (sample_request ''2099-01-01'')) =
   (Inr (502, PDict [(''error'',
           PStr (''Weather data unavailable: '' @ [CHR 0x27] @ ''hourly'' @ [CHR 0x27]))]),
    [(forecast_url, weather_params (PFloat 48.85) (PFloat 2.35) (PStr ''2099-01-01''))])"
proof -
  let ?j = "PDict [(''error'', PBool True)]"
  let ?w = "sample_world (json_answer ?j) (Inl (RequestException ''down''))"
  let ?resp = "\<lparr>ok = True, status_code = 200, json_result = Inr ?j\<rparr>"
  have v: "validated ?w (sample_request ''2099-01-01'') (PFloat 48.85) (PFloat 2.35)
      (PStr ''2099-01-01'') \<lparr>year = 2099, month = 1, day = 1\<rparr>"
    by (rule sample_request_validated) (simp_all add: sample_strptime_def)
  have u: "base_url (date_lt \<lparr>year = 2099, month = 1, day = 1\<rparr> (utcnow_date ?w)) = forecast_url"
    by (simp add: base_url_def date_lt_def sample_today_def sample_world_def)
  have g: "http_get ?w forecast_url
      (weather_params (PFloat 48.85) (PFloat 2.35) (PStr ''2099-01-01'')) = Inr ?resp"
    by (simp add: sample_world_def json_answer_def)
  have l: "lacks_hourly ?j"
    by (simp add: lacks_hourly_def)
  have x: "exc_str ?w (hourly_error ?j) = [CHR 0x27] @ ''hourly'' @ [CHR 0x27]"
    by (simp add: sample_world_def sample_exc_str_def hourly_error_def)
  have "ok ?resp" and "json_result ?resp = Inr ?j" by simp_all
  from weather_lacks_hourly_502 [OF v, unfolded u, OF g this l] v g l
  show ?thesis by (simp add: x)
qed

end
